theory Spec2Isabelle
  imports Main "HOL-Library.Word"
begin

section \<open>The cgo callback shim of sdrplay-go (src/api/api\_cgo.c)\<close>

text \<open>
  The file holds three forwarding functions, which the vendor driver calls through a table
  of function pointers, and \<open>wrapper_api_Init\<close>, which fills that table and hands it to
  the driver. Each forwarding function is one call of a function exported by the Go side
  of the binding. Everything the shim calls is outside the file: the three Go receivers
  and the driver's \<open>sdrplay_api_Init\<close>. They are parameters of the model: a statement
  about \<open>go\<close> holds for all receivers, one about \<open>sdrplay_api_Init\<close> for all drivers.
\<close>

subsection \<open>C and Go types\<close>

text \<open>
  The width of a pointer is the type parameter \<open>'p\<close> (32 on a 32-bit target, 64 on a
  64-bit one). A C pointer is an address, of type \<open>'p word\<close> everywhere below; the shim
  never looks behind one.
\<close>

datatype 'a ptr = Ptr (addr_of: 'a)

text \<open>C's \<open>unsigned int\<close>, 32 bits wide on every target cgo builds for.\<close>

type_synonym uint = "32 word"

text \<open>
  Modelled from the spec: \<open>_cgo_export.h\<close>, which declares \<open>GoUintptr\<close>, \<open>GoUint32\<close> and
  \<open>GoInt32\<close>, is generated by cgo and missing. The spec: "All handle-typed parameters are
  address-sized unsigned integers; numeric codes are fixed-width signed/unsigned 32-bit
  integers". A \<open>GoInt32\<close> is a 32-bit word read by \<open>sint\<close>, a \<open>GoUint32\<close> one read by
  \<open>unat\<close>.
\<close>

type_synonym 'p GoUintptr = "'p word"
type_synonym GoUint32 = "32 word"
type_synonym GoInt32 = "32 word"

text \<open>
  Modelled from the spec: the vendor header \<open>sdrplay_api.h\<close> is missing. Its enumerations
  \<open>sdrplay_api_EventT\<close>, \<open>sdrplay_api_TunerSelectT\<close> and \<open>sdrplay_api_ErrT\<close> are, in the
  spec's words, "signed 32-bit enumerated code" and "signed integer codes, meaning owned
  by the driver": 32-bit words read by \<open>sint\<close>. \<open>HANDLE\<close> is the "opaque device handle",
  which the source casts to \<open>void *\<close>: a pointer.
\<close>

type_synonym sdrplay_api_EventT = "32 word"
type_synonym sdrplay_api_TunerSelectT = "32 word"
type_synonym sdrplay_api_ErrT = "32 word"
type_synonym 'p HANDLE = "'p word ptr"

subsection \<open>The casts of the source\<close>

text \<open>\<open>(GoUintptr)p\<close>: a pointer converted to the unsigned integer of pointer width.\<close>

definition GoUintptr_cast :: "'p::len word ptr \<Rightarrow> 'p GoUintptr" where
  "GoUintptr_cast p = ucast (addr_of p)"

text \<open>\<open>(GoUint32)n\<close> for an \<open>unsigned int\<close> \<open>n\<close>.\<close>

definition GoUint32_cast :: "uint \<Rightarrow> GoUint32" where
  "GoUint32_cast n = ucast n"

text \<open>\<open>(GoInt32)e\<close> for a value \<open>e\<close> of an enumeration: a signed conversion.\<close>

definition GoInt32_cast :: "32 word \<Rightarrow> GoInt32" where
  "GoInt32_cast e = scast e"

text \<open>\<open>(void*)dev\<close>: a pointer converted to a pointer to \<open>void\<close>; the address stays.\<close>

definition void_ptr_cast :: "'p HANDLE \<Rightarrow> 'p word ptr" where
  "void_ptr_cast dev = Ptr (addr_of dev)"

text \<open>
  The way back, which the Go side takes when it turns a handle into a pointer again
  (\<open>unsafe.Pointer(handle)\<close>).
\<close>

definition ptr_of_handle :: "'p::len GoUintptr \<Rightarrow> 'p word ptr" where
  "ptr_of_handle h = Ptr (ucast h)"

subsection \<open>The Go receivers\<close>

text \<open>
  The three functions the shim calls are exported by the Go side of the binding and are
  not part of the file: \<open>streamACallback\<close>, \<open>streamBCallback\<close> and \<open>eventCallback\<close>.
  The casts at the three call sites give their parameter types. They return nothing;
  what they do is an arbitrary change of the host's state \<open>'w\<close> (the memory included).
  The type \<open>'h\<close> of handles is \<open>'p GoUintptr\<close> wherever the record is used.
\<close>

record ('h, 'w) go_exports =
  streamACallback :: "'h \<Rightarrow> 'h \<Rightarrow> 'h \<Rightarrow> GoUint32 \<Rightarrow> GoUint32 \<Rightarrow> 'h \<Rightarrow> 'w \<Rightarrow> 'w"
  streamBCallback :: "'h \<Rightarrow> 'h \<Rightarrow> 'h \<Rightarrow> GoUint32 \<Rightarrow> GoUint32 \<Rightarrow> 'h \<Rightarrow> 'w \<Rightarrow> 'w"
  eventCallback :: "GoInt32 \<Rightarrow> GoInt32 \<Rightarrow> 'h \<Rightarrow> 'h \<Rightarrow> 'w \<Rightarrow> 'w"

subsection \<open>The forwarding functions\<close>

definition cgoStreamACallback ::
  "('p::len GoUintptr, 'w) go_exports \<Rightarrow> 'p word ptr \<Rightarrow> 'p word ptr \<Rightarrow> 'p word ptr \<Rightarrow> uint \<Rightarrow> uint \<Rightarrow> 'p word ptr \<Rightarrow> 'w \<Rightarrow> 'w"
where
  "cgoStreamACallback go xi xq params numSamples reset cbContext =
     streamACallback go (GoUintptr_cast xi) (GoUintptr_cast xq) (GoUintptr_cast params)
       (GoUint32_cast numSamples) (GoUint32_cast reset) (GoUintptr_cast cbContext)"

definition cgoStreamBCallback ::
  "('p::len GoUintptr, 'w) go_exports \<Rightarrow> 'p word ptr \<Rightarrow> 'p word ptr \<Rightarrow> 'p word ptr \<Rightarrow> uint \<Rightarrow> uint \<Rightarrow> 'p word ptr \<Rightarrow> 'w \<Rightarrow> 'w"
where
  "cgoStreamBCallback go xi xq params numSamples reset cbContext =
     streamBCallback go (GoUintptr_cast xi) (GoUintptr_cast xq) (GoUintptr_cast params)
       (GoUint32_cast numSamples) (GoUint32_cast reset) (GoUintptr_cast cbContext)"

definition cgoEventCallback ::
  "('p::len GoUintptr, 'w) go_exports \<Rightarrow> sdrplay_api_EventT \<Rightarrow> sdrplay_api_TunerSelectT \<Rightarrow> 'p word ptr \<Rightarrow> 'p word ptr
     \<Rightarrow> 'w \<Rightarrow> 'w"
where
  "cgoEventCallback go eventId tuner params cbContext =
     eventCallback go (GoInt32_cast eventId) (GoInt32_cast tuner) (GoUintptr_cast params)
       (GoUintptr_cast cbContext)"

subsection \<open>The callback table\<close>

text \<open>
  A function pointer is the name of the function it points to: the two stream slots can
  hold either stream forwarder, the event slot the event forwarder. Calling through the
  pointer is a case distinction on the name.
\<close>

datatype stream_fn = Fn_cgoStreamACallback | Fn_cgoStreamBCallback

datatype event_fn = Fn_cgoEventCallback

fun call_stream_fn ::
  "stream_fn \<Rightarrow> ('p::len GoUintptr, 'w) go_exports \<Rightarrow> 'p word ptr \<Rightarrow> 'p word ptr \<Rightarrow> 'p word ptr
     \<Rightarrow> uint \<Rightarrow> uint \<Rightarrow> 'p word ptr \<Rightarrow> 'w \<Rightarrow> 'w"
where
  "call_stream_fn Fn_cgoStreamACallback = cgoStreamACallback"
| "call_stream_fn Fn_cgoStreamBCallback = cgoStreamBCallback"

fun call_event_fn ::
  "event_fn \<Rightarrow> ('p::len GoUintptr, 'w) go_exports \<Rightarrow> sdrplay_api_EventT
     \<Rightarrow> sdrplay_api_TunerSelectT \<Rightarrow> 'p word ptr \<Rightarrow> 'p word ptr \<Rightarrow> 'w \<Rightarrow> 'w"
where
  "call_event_fn Fn_cgoEventCallback = cgoEventCallback"

text \<open>
  Modelled from the spec: \<open>sdrplay_api_CallbackFnsT\<close> is declared in the missing vendor
  header. The spec: "callback table with exactly three function-pointer slots: stream-A,
  stream-B, event". The field names are the source's. A slot that was never assigned
  is \<open>None\<close>.
\<close>

record sdrplay_api_CallbackFnsT =
  StreamACbFn :: "stream_fn option"
  StreamBCbFn :: "stream_fn option"
  EventCbFn :: "event_fn option"

subsection \<open>Automatic storage\<close>

text \<open>
  \<open>cbFuncs\<close> is a local variable of \<open>wrapper_api_Init\<close>. The state of the C side is the
  stack of the live objects of that kind, bottom first, beside the host's state. The
  address of such an object is its position in the stack; an address at or beyond the
  top points to no live object.
\<close>

record 'w c_state =
  automatic :: "sdrplay_api_CallbackFnsT list"
  world :: 'w

type_synonym cbfns_ptr = nat

definition deref :: "cbfns_ptr \<Rightarrow> 'w c_state \<Rightarrow> sdrplay_api_CallbackFnsT option" where
  "deref a s = (if a < length (automatic s) then Some (automatic s ! a) else None)"

text \<open>The declaration \<open>sdrplay_api_CallbackFnsT cbFuncs;\<close>: a new object, no slot assigned.\<close>

definition declare_cbFuncs :: "'w c_state \<Rightarrow> cbfns_ptr \<times> 'w c_state" where
  "declare_cbFuncs s =
     (length (automatic s),
      s\<lparr>automatic := automatic s @
           [\<lparr>StreamACbFn = None, StreamBCbFn = None, EventCbFn = None\<rparr>]\<rparr>)"

text \<open>An assignment to a field of the object at \<open>a\<close>.\<close>

definition assign ::
  "cbfns_ptr \<Rightarrow> (sdrplay_api_CallbackFnsT \<Rightarrow> sdrplay_api_CallbackFnsT) \<Rightarrow> 'w c_state \<Rightarrow> 'w c_state"
where
  "assign a upd s =
     (if a < length (automatic s)
      then s\<lparr>automatic := (automatic s)[a := upd (automatic s ! a)]\<rparr>
      else s)"

text \<open>Leaving the function ends the life of its local and of everything above it.\<close>

definition leave :: "cbfns_ptr \<Rightarrow> 'w c_state \<Rightarrow> 'w c_state" where
  "leave a s = s\<lparr>automatic := take a (automatic s)\<rparr>"

subsection \<open>Initialisation\<close>

text \<open>
  The driver's \<open>sdrplay_api_Init(dev, callbackFns, cbContext)\<close> is vendor code: the first
  parameter of the model. It returns a status and may change the state in any way.
\<close>

type_synonym ('p, 'w) driver_init =
  "'p HANDLE \<Rightarrow> cbfns_ptr \<Rightarrow> 'p word ptr \<Rightarrow> 'w c_state \<Rightarrow> sdrplay_api_ErrT \<times> 'w c_state"

definition wrapper_api_Init ::
  "('p, 'w) driver_init \<Rightarrow> 'p HANDLE \<Rightarrow> 'w c_state \<Rightarrow> sdrplay_api_ErrT \<times> 'w c_state"
where
  "wrapper_api_Init sdrplay_api_Init dev s =
     (let (cbFuncs, s0) = declare_cbFuncs s;
          s1 = assign cbFuncs (\<lambda>t. t\<lparr>StreamACbFn := Some Fn_cgoStreamACallback\<rparr>) s0;
          s2 = assign cbFuncs (\<lambda>t. t\<lparr>StreamBCbFn := Some Fn_cgoStreamBCallback\<rparr>) s1;
          s3 = assign cbFuncs (\<lambda>t. t\<lparr>EventCbFn := Some Fn_cgoEventCallback\<rparr>) s2;
          (rc, s4) = sdrplay_api_Init dev cbFuncs (void_ptr_cast dev) s3
      in (rc, leave cbFuncs s4))"

section \<open>What the theorems speak of\<close>

text \<open>
  None of the definitions of this section is code of the shim. They are the observers the
  statements need: a host that records what it is called with, a driver that records
  what it is handed, and the driver's use of a table.
\<close>

subsection \<open>A recording host\<close>

text \<open>One call of a Go receiver, with the values it was given.\<close>

datatype 'h go_call =
    StreamA 'h 'h 'h GoUint32 GoUint32 'h
  | StreamB 'h 'h 'h GoUint32 GoUint32 'h
  | Event GoInt32 GoInt32 'h 'h

text \<open>A host state: the memory, by address, and the calls received so far, oldest first.\<close>

record 'h host_world =
  memory :: "'h \<Rightarrow> 8 word"
  received :: "'h go_call list"

text \<open>Receivers that append the call to the log and touch nothing else.\<close>

definition recording :: "('h, 'h host_world) go_exports" where
  "recording =
     \<lparr>streamACallback = (\<lambda>i q p n r c w. w\<lparr>received := received w @ [StreamA i q p n r c]\<rparr>),
      streamBCallback = (\<lambda>i q p n r c w. w\<lparr>received := received w @ [StreamB i q p n r c]\<rparr>),
      eventCallback = (\<lambda>e t p c w. w\<lparr>received := received w @ [Event e t p c]\<rparr>)\<rparr>"

text \<open>Any receivers, applied to a recorded call.\<close>

fun receive :: "('h, 'w) go_exports \<Rightarrow> 'h go_call \<Rightarrow> 'w \<Rightarrow> 'w" where
  "receive go (StreamA i q p n r c) = streamACallback go i q p n r c"
| "receive go (StreamB i q p n r c) = streamBCallback go i q p n r c"
| "receive go (Event e t p c) = eventCallback go e t p c"

subsection \<open>The driver's side\<close>

text \<open>
  Modelled from the spec: the driver is vendor code. The spec's glossary: the callback
  table is "a small native structure of function-pointer slots that the driver invokes
  directly when data or events are ready". A delivery names the slot and carries the
  native arguments.
\<close>

datatype 'a delivery =
    ViaStreamACbFn "'a ptr" "'a ptr" "'a ptr" uint uint "'a ptr"
  | ViaStreamBCbFn "'a ptr" "'a ptr" "'a ptr" uint uint "'a ptr"
  | ViaEventCbFn sdrplay_api_EventT sdrplay_api_TunerSelectT "'a ptr" "'a ptr"

text \<open>One delivery through a table; calling through a slot never assigned is a fault.\<close>

fun deliver ::
  "('p::len GoUintptr, 'w) go_exports \<Rightarrow> sdrplay_api_CallbackFnsT \<Rightarrow> 'p word delivery \<Rightarrow> 'w
     \<Rightarrow> 'w option"
where
  "deliver go t (ViaStreamACbFn xi xq params numSamples reset cbContext) w =
     (case StreamACbFn t of
        None \<Rightarrow> None
      | Some f \<Rightarrow> Some (call_stream_fn f go xi xq params numSamples reset cbContext w))"
| "deliver go t (ViaStreamBCbFn xi xq params numSamples reset cbContext) w =
     (case StreamBCbFn t of
        None \<Rightarrow> None
      | Some f \<Rightarrow> Some (call_stream_fn f go xi xq params numSamples reset cbContext w))"
| "deliver go t (ViaEventCbFn eventId tuner params cbContext) w =
     (case EventCbFn t of
        None \<Rightarrow> None
      | Some f \<Rightarrow> Some (call_event_fn f go eventId tuner params cbContext w))"

text \<open>A run of deliveries, in the order the driver makes them.\<close>

fun deliver_all ::
  "('p::len GoUintptr, 'w) go_exports \<Rightarrow> sdrplay_api_CallbackFnsT \<Rightarrow> 'p word delivery list \<Rightarrow> 'w
     \<Rightarrow> 'w option"
where
  "deliver_all go t [] w = Some w"
| "deliver_all go t (d # ds) w =
     (case deliver go t d w of None \<Rightarrow> None | Some w' \<Rightarrow> deliver_all go t ds w')"

text \<open>What the host is to see of a delivery: the slot's receiver, addresses as handles.\<close>

fun host_view :: "'p::len word delivery \<Rightarrow> 'p GoUintptr go_call" where
  "host_view (ViaStreamACbFn xi xq params numSamples reset cbContext) =
     StreamA (addr_of xi) (addr_of xq) (addr_of params) numSamples reset (addr_of cbContext)"
| "host_view (ViaStreamBCbFn xi xq params numSamples reset cbContext) =
     StreamB (addr_of xi) (addr_of xq) (addr_of params) numSamples reset (addr_of cbContext)"
| "host_view (ViaEventCbFn eventId tuner params cbContext) =
     Event eventId tuner (addr_of params) (addr_of cbContext)"

text \<open>The table with each slot holding the forwarder of its name.\<close>

definition registered :: sdrplay_api_CallbackFnsT where
  "registered =
     \<lparr>StreamACbFn = Some Fn_cgoStreamACallback,
      StreamBCbFn = Some Fn_cgoStreamBCallback,
      EventCbFn = Some Fn_cgoEventCallback\<rparr>"

text \<open>
  A simulated driver: it returns the status it is built with and appends to the host's
  state what it was handed: the device, the table pointer, the table behind it at
  that moment, and the context. One entry is one call of the driver.
\<close>

type_synonym 'p init_call =
  "'p HANDLE \<times> cbfns_ptr \<times> sdrplay_api_CallbackFnsT option \<times> 'p word ptr"

definition simulated_Init :: "sdrplay_api_ErrT \<Rightarrow> ('p, 'p init_call list) driver_init" where
  "simulated_Init rc dev callbackFns cbContext s =
     (rc, s\<lparr>world := world s @ [(dev, callbackFns, deref callbackFns s, cbContext)]\<rparr>)"

section \<open>Theorems\<close>

subsection \<open>The casts lose nothing\<close>

lemma GoUintptr_cast_addr [simp]: "GoUintptr_cast p = addr_of p"
  by (simp add: GoUintptr_cast_def)

lemma ptr_of_handle_Ptr [simp]: "ptr_of_handle h = Ptr h"
  by (simp add: ptr_of_handle_def)

lemma GoUint32_cast_id [simp]: "GoUint32_cast n = n"
  by (simp add: GoUint32_cast_def)

lemma GoInt32_cast_id [simp]: "GoInt32_cast e = e"
  by (simp add: GoInt32_cast_def)

subsection \<open>The table at the moment the driver is called\<close>

lemma wrapper_api_Init_unfold:
  "wrapper_api_Init sdrplay_api_Init dev s =
     (case sdrplay_api_Init dev (length (automatic s)) (void_ptr_cast dev)
             (s\<lparr>automatic := automatic s @ [registered]\<rparr>) of
        (rc, s') \<Rightarrow> (rc, leave (length (automatic s)) s'))"
proof -
  let ?a = "length (automatic s)"
  let ?fresh = "s\<lparr>automatic := automatic s @
      [\<lparr>StreamACbFn = None, StreamBCbFn = None, EventCbFn = None\<rparr>]\<rparr>"
  have decl: "declare_cbFuncs s = (?a, ?fresh)"
    by (simp add: declare_cbFuncs_def)
  have three:
    "assign ?a (\<lambda>t. t\<lparr>EventCbFn := Some Fn_cgoEventCallback\<rparr>)
       (assign ?a (\<lambda>t. t\<lparr>StreamBCbFn := Some Fn_cgoStreamBCallback\<rparr>)
          (assign ?a (\<lambda>t. t\<lparr>StreamACbFn := Some Fn_cgoStreamACallback\<rparr>) ?fresh))
     = s\<lparr>automatic := automatic s @ [registered]\<rparr>"
    by (simp add: assign_def registered_def)
  show ?thesis
    by (simp add: wrapper_api_Init_def decl three)
qed

lemma deref_pushed: "deref (length (automatic s)) (s\<lparr>automatic := automatic s @ [t]\<rparr>) = Some t"
  by (simp add: deref_def)

lemma deref_leave: "deref a (leave a s) = None"
  by (simp add: deref_def leave_def)

subsection \<open>Deliveries through the registered table\<close>

lemma deliver_registered: "deliver go registered d w = Some (receive go (host_view d) w)"
proof (cases d)
  case (ViaStreamACbFn xi xq params numSamples reset cbContext)
  then show ?thesis by (simp add: registered_def cgoStreamACallback_def)
next
  case (ViaStreamBCbFn xi xq params numSamples reset cbContext)
  then show ?thesis by (simp add: registered_def cgoStreamBCallback_def)
next
  case (ViaEventCbFn eventId tuner params cbContext)
  then show ?thesis by (simp add: registered_def cgoEventCallback_def)
qed

lemma deliver_all_registered:
  "deliver_all go registered ds w = Some (fold (receive go) (map host_view ds) w)"
  by (induction ds arbitrary: w) (simp_all add: deliver_registered)

lemma receive_recording: "receive recording c w = w\<lparr>received := received w @ [c]\<rparr>"
  by (cases c) (simp_all add: recording_def)

lemma fold_receive_recording: "fold (receive recording) cs w = w\<lparr>received := received w @ cs\<rparr>"
  by (induction cs arbitrary: w) (simp_all add: receive_recording)

subsection \<open>The claims\<close>

text \<open>
  C1. For channel A and for channel B, and for every tuple of native arguments, the
  forwarder calls the receiver of its channel with the four addresses as handles and with
  the sample count and the reset flag as they came. A handle turned back into a pointer
  is the pointer it came from, and the two counts read as unsigned 32-bit numbers are
  the numbers the driver passed.
\<close>

theorem stream_forwarding_exact:
  fixes go :: "('p::len GoUintptr, 'w) go_exports"
  shows
    "cgoStreamACallback go xi xq params numSamples reset cbContext w =
       streamACallback go (addr_of xi) (addr_of xq) (addr_of params) numSamples reset
         (addr_of cbContext) w
     \<and> cgoStreamBCallback go xi xq params numSamples reset cbContext w =
       streamBCallback go (addr_of xi) (addr_of xq) (addr_of params) numSamples reset
         (addr_of cbContext) w
     \<and> ptr_of_handle (GoUintptr_cast xi) = xi
     \<and> ptr_of_handle (GoUintptr_cast xq) = xq
     \<and> ptr_of_handle (GoUintptr_cast params) = params
     \<and> ptr_of_handle (GoUintptr_cast cbContext) = cbContext
     \<and> unat (GoUint32_cast numSamples) = unat numSamples
     \<and> unat (GoUint32_cast reset) = unat reset"
  by (simp add: cgoStreamACallback_def cgoStreamBCallback_def)

text \<open>
  The spec's scenario on a 64-bit target: i-buffer at 0x1000, q-buffer at 0x2000, 256
  samples, reset 0, context 0xABCD (the parameter structure at 0x3000).
\<close>

theorem stream_forwarding_exact_witness:
  "received (cgoStreamACallback recording (Ptr (0x1000 :: 64 word)) (Ptr 0x2000) (Ptr 0x3000)
      256 0 (Ptr 0xABCD) \<lparr>memory = (\<lambda>a. 0), received = []\<rparr>)
   = [StreamA 0x1000 0x2000 0x3000 256 0 0xABCD]"
  using stream_forwarding_exact [of recording "Ptr (0x1000 :: 64 word)" "Ptr 0x2000" "Ptr 0x3000"
      256 0 "Ptr 0xABCD" "\<lparr>memory = (\<lambda>a. 0), received = []\<rparr>"]
  by (simp add: recording_def)

text \<open>
  C2. Routing is exclusive. What the A forwarder does is what the A receiver does, whatever
  stands in the places of the B receiver and the event receiver, and the other way
  round for B; a delivery through slot A of the registered table reaches the A receiver
  and one through slot B the B receiver. With the recording receivers the log grows by
  exactly one entry, of the forwarder's own channel.
\<close>

theorem routing_exclusive:
  fixes go :: "('p::len GoUintptr, 'w) go_exports"
  shows
    "cgoStreamACallback (go\<lparr>streamBCallback := fB, eventCallback := fE\<rparr>)
         xi xq params numSamples reset cbContext w =
       streamACallback go (addr_of xi) (addr_of xq) (addr_of params) numSamples reset
         (addr_of cbContext) w
     \<and> cgoStreamBCallback (go\<lparr>streamACallback := fA, eventCallback := fE\<rparr>)
         xi xq params numSamples reset cbContext w =
       streamBCallback go (addr_of xi) (addr_of xq) (addr_of params) numSamples reset
         (addr_of cbContext) w
     \<and> deliver (go\<lparr>streamBCallback := fB, eventCallback := fE\<rparr>) registered
         (ViaStreamACbFn xi xq params numSamples reset cbContext) w =
       Some (streamACallback go (addr_of xi) (addr_of xq) (addr_of params) numSamples reset
         (addr_of cbContext) w)
     \<and> deliver (go\<lparr>streamACallback := fA, eventCallback := fE\<rparr>) registered
         (ViaStreamBCbFn xi xq params numSamples reset cbContext) w =
       Some (streamBCallback go (addr_of xi) (addr_of xq) (addr_of params) numSamples reset
         (addr_of cbContext) w)
     \<and> cgoStreamACallback recording xi xq params numSamples reset cbContext v =
       v\<lparr>received := received v @
           [StreamA (addr_of xi) (addr_of xq) (addr_of params) numSamples reset
              (addr_of cbContext)]\<rparr>
     \<and> cgoStreamBCallback recording xi xq params numSamples reset cbContext v =
       v\<lparr>received := received v @
           [StreamB (addr_of xi) (addr_of xq) (addr_of params) numSamples reset
              (addr_of cbContext)]\<rparr>"
proof -
  have a: "cgoStreamACallback go' xi xq params numSamples reset cbContext =
      streamACallback go' (addr_of xi) (addr_of xq) (addr_of params) numSamples reset
        (addr_of cbContext)"
    for go' :: "('p GoUintptr, 'x) go_exports"
    by (simp add: cgoStreamACallback_def)
  have b: "cgoStreamBCallback go' xi xq params numSamples reset cbContext =
      streamBCallback go' (addr_of xi) (addr_of xq) (addr_of params) numSamples reset
        (addr_of cbContext)"
    for go' :: "('p GoUintptr, 'x) go_exports"
    by (simp add: cgoStreamBCallback_def)
  show ?thesis
    by (simp add: a b registered_def recording_def)
qed

text \<open>
  C3. For every pair of an event code and a tuner code, the event forwarder calls the
  event receiver with the same two codes, equal as signed 32-bit numbers, and with the
  addresses of the parameter structure and of the context as handles, each of which
  turns back into the pointer it came from.
\<close>

theorem event_forwarding_exact:
  fixes go :: "('p::len GoUintptr, 'w) go_exports"
  shows
    "cgoEventCallback go eventId tuner params cbContext w =
       eventCallback go eventId tuner (addr_of params) (addr_of cbContext) w
     \<and> sint (GoInt32_cast eventId) = sint eventId
     \<and> sint (GoInt32_cast tuner) = sint tuner
     \<and> ptr_of_handle (GoUintptr_cast params) = params
     \<and> ptr_of_handle (GoUintptr_cast cbContext) = cbContext"
  by (simp add: cgoEventCallback_def)

text \<open>Event code 2 for tuner 1, and the code -1, which stays -1.\<close>

theorem event_forwarding_exact_witness:
  "received (cgoEventCallback recording 2 1 (Ptr (0x3000 :: 64 word)) (Ptr 0xABCD)
      \<lparr>memory = (\<lambda>a. 0), received = []\<rparr>)
   = [Event 2 1 0x3000 0xABCD]
   \<and> sint (GoInt32_cast (- 1)) = - 1"
  using event_forwarding_exact [of recording 2 1 "Ptr (0x3000 :: 64 word)" "Ptr 0xABCD"
      "\<lparr>memory = (\<lambda>a. 0), received = []\<rparr>"]
    event_forwarding_exact [of recording "- 1" 1 "Ptr (0x3000 :: 64 word)" "Ptr 0xABCD"
      "\<lparr>memory = (\<lambda>a. 0), received = []\<rparr>"]
  by (simp add: recording_def)

text \<open>
  C4. For every device handle and every driver, the status \<open>wrapper_api_Init\<close> returns is
  the status of its one call of the driver's \<open>sdrplay_api_Init\<close>. The simulated driver
  built with a status gets that status back, and its log grows by one call: nothing is
  translated and nothing is tried again.
\<close>

theorem wrapper_api_Init_status:
  "fst (wrapper_api_Init sdrplay_api_Init dev s) =
     fst (sdrplay_api_Init dev (length (automatic s)) (void_ptr_cast dev)
            (s\<lparr>automatic := automatic s @ [registered]\<rparr>))
   \<and> fst (wrapper_api_Init (simulated_Init rc) dev' s') = rc
   \<and> length (world (snd (wrapper_api_Init (simulated_Init rc) dev' s'))) =
       Suc (length (world s'))"
  by (simp add: wrapper_api_Init_unfold simulated_Init_def leave_def split: prod.split)

text \<open>The spec's example: the simulated driver returns 7.\<close>

theorem wrapper_api_Init_status_witness:
  "fst (wrapper_api_Init (simulated_Init 7) (Ptr (0x10 :: 64 word))
          \<lparr>automatic = [], world = []\<rparr>) = 7"
  using wrapper_api_Init_status [of "simulated_Init 7" "Ptr (0x10 :: 64 word)"
      "\<lparr>automatic = [], world = []\<rparr>" 7 "Ptr (0x10 :: 64 word)"
      "\<lparr>automatic = [], world = []\<rparr>"]
  by (simp add: simulated_Init_def)

text \<open>
  C5. For every device handle, \<open>wrapper_api_Init\<close> calls the driver in a state where the
  table behind the pointer it passes has all three slots filled with the three
  forwarders; it passes the device handle as the device and, as a pointer with the same
  address, as the context. The simulated driver's log shows exactly that. A forwarder
  later called with that context hands the device's address to its receiver.
\<close>

theorem wrapper_api_Init_registers:
  fixes go :: "('p::len GoUintptr, 'w) go_exports"
  shows
    "wrapper_api_Init sdrplay_api_Init dev s =
       (case sdrplay_api_Init dev (length (automatic s)) (void_ptr_cast dev)
               (s\<lparr>automatic := automatic s @ [registered]\<rparr>) of
          (rc, s') \<Rightarrow> (rc, leave (length (automatic s)) s'))
     \<and> deref (length (automatic s)) (s\<lparr>automatic := automatic s @ [registered]\<rparr>) =
         Some \<lparr>StreamACbFn = Some Fn_cgoStreamACallback,
               StreamBCbFn = Some Fn_cgoStreamBCallback,
               EventCbFn = Some Fn_cgoEventCallback\<rparr>
     \<and> world (snd (wrapper_api_Init (simulated_Init rc) dev' s')) =
         world s' @ [(dev', length (automatic s'), Some registered, Ptr (addr_of dev'))]
     \<and> cgoStreamACallback go xi xq params numSamples reset (void_ptr_cast dev') w =
         streamACallback go (addr_of xi) (addr_of xq) (addr_of params) numSamples reset
           (addr_of dev') w
     \<and> cgoStreamBCallback go xi xq params numSamples reset (void_ptr_cast dev') w =
         streamBCallback go (addr_of xi) (addr_of xq) (addr_of params) numSamples reset
           (addr_of dev') w
     \<and> cgoEventCallback go eventId tuner eparams (void_ptr_cast dev') w =
         eventCallback go eventId tuner (addr_of eparams) (addr_of dev') w"
proof -
  have "deref (length (automatic s)) (s\<lparr>automatic := automatic s @ [registered]\<rparr>) =
      Some registered"
    by (rule deref_pushed)
  moreover have "world (snd (wrapper_api_Init (simulated_Init rc) dev' s')) =
      world s' @ [(dev', length (automatic s'), Some registered, Ptr (addr_of dev'))]"
    by (simp add: wrapper_api_Init_unfold simulated_Init_def leave_def deref_pushed
          void_ptr_cast_def)
  ultimately show ?thesis
    by (simp add: wrapper_api_Init_unfold registered_def void_ptr_cast_def
          cgoStreamACallback_def cgoStreamBCallback_def cgoEventCallback_def)
qed

text \<open>
  C6. Every native callback is exactly one call of its receiver: a delivery through the
  registered table is the one application of the slot's receiver to the delivery's
  values, and a run of deliveries is the run of those applications in the same order,
  none missing, none added, none merged. With the recording receivers the log grows
  by the deliveries' host views, one entry for each delivery, in the driver's order, and
  nothing else in the host's state changes.
\<close>

theorem one_host_call_per_delivery:
  fixes go :: "('p::len GoUintptr, 'w) go_exports"
  shows
    "cgoStreamACallback go xi xq params numSamples reset cbContext w =
       receive go (host_view (ViaStreamACbFn xi xq params numSamples reset cbContext)) w
     \<and> cgoStreamBCallback go xi xq params numSamples reset cbContext w =
       receive go (host_view (ViaStreamBCbFn xi xq params numSamples reset cbContext)) w
     \<and> cgoEventCallback go eventId tuner eparams cbContext w =
       receive go (host_view (ViaEventCbFn eventId tuner eparams cbContext)) w
     \<and> deliver go registered d w = Some (receive go (host_view d) w)
     \<and> deliver_all go registered ds w = Some (fold (receive go) (map host_view ds) w)
     \<and> deliver_all recording registered ds v =
         Some (v\<lparr>received := received v @ map host_view ds\<rparr>)
     \<and> length (map host_view ds) = length ds"
proof -
  have single:
    "cgoStreamACallback go xi xq params numSamples reset cbContext w =
       receive go (host_view (ViaStreamACbFn xi xq params numSamples reset cbContext)) w"
    "cgoStreamBCallback go xi xq params numSamples reset cbContext w =
       receive go (host_view (ViaStreamBCbFn xi xq params numSamples reset cbContext)) w"
    "cgoEventCallback go eventId tuner eparams cbContext w =
       receive go (host_view (ViaEventCbFn eventId tuner eparams cbContext)) w"
    by (simp_all add: cgoStreamACallback_def cgoStreamBCallback_def cgoEventCallback_def)
  have run: "deliver_all recording registered ds v =
      Some (v\<lparr>received := received v @ map host_view ds\<rparr>)"
    by (simp add: deliver_all_registered fold_receive_recording)
  from single run show ?thesis
    by (simp add: deliver_registered deliver_all_registered)
qed

text \<open>Three deliveries, B then the event then A, arrive as three calls in that order.\<close>

theorem one_host_call_per_delivery_witness:
  "deliver_all recording registered
     [ViaStreamBCbFn (Ptr (0x1000 :: 64 word)) (Ptr 0x2000) (Ptr 0x3000) 256 0 (Ptr 0xABCD),
      ViaEventCbFn 2 1 (Ptr 0x4000) (Ptr 0xABCD),
      ViaStreamACbFn (Ptr 0x5000) (Ptr 0x6000) (Ptr 0x3000) 128 1 (Ptr 0xABCD)]
     \<lparr>memory = (\<lambda>a. 0), received = []\<rparr>
   = Some \<lparr>memory = (\<lambda>a. 0),
           received = [StreamB 0x1000 0x2000 0x3000 256 0 0xABCD,
                       Event 2 1 0x4000 0xABCD,
                       StreamA 0x5000 0x6000 0x3000 128 1 0xABCD]\<rparr>"
  using one_host_call_per_delivery [where go = recording and v = "\<lparr>memory = (\<lambda>a. 0), received = []\<rparr>"
      and ds = "[ViaStreamBCbFn (Ptr (0x1000 :: 64 word)) (Ptr 0x2000) (Ptr 0x3000) 256 0 (Ptr 0xABCD),
        ViaEventCbFn 2 1 (Ptr 0x4000) (Ptr 0xABCD),
        ViaStreamACbFn (Ptr 0x5000) (Ptr 0x6000) (Ptr 0x3000) 128 1 (Ptr 0xABCD)]"]
  by (simp add: recording_def)

text \<open>
  C7. No forwarder reads or writes the memory behind the pointers it is given. With
  receivers that leave the memory alone, the memory after a forwarder is the memory before
  it, and what reaches the receiver is the same whatever the memory holds. With any
  receivers, whatever is observed of the host's state after a forwarder is what is
  observed after the receiver's call alone: the forwarder adds no access of its own.
\<close>

theorem forwarding_frame:
  fixes go :: "('p::len GoUintptr, 'w) go_exports"
  shows
    "memory (cgoStreamACallback recording xi xq params numSamples reset cbContext v) = memory v
     \<and> memory (cgoStreamBCallback recording xi xq params numSamples reset cbContext v) = memory v
     \<and> memory (cgoEventCallback recording eventId tuner eparams cbContext v) = memory v
     \<and> received (cgoStreamACallback recording xi xq params numSamples reset cbContext
                   (v\<lparr>memory := m\<rparr>)) =
       received (cgoStreamACallback recording xi xq params numSamples reset cbContext v)
     \<and> received (cgoStreamBCallback recording xi xq params numSamples reset cbContext
                   (v\<lparr>memory := m\<rparr>)) =
       received (cgoStreamBCallback recording xi xq params numSamples reset cbContext v)
     \<and> received (cgoEventCallback recording eventId tuner eparams cbContext
                   (v\<lparr>memory := m\<rparr>)) =
       received (cgoEventCallback recording eventId tuner eparams cbContext v)
     \<and> obs (cgoStreamACallback go xi xq params numSamples reset cbContext w) =
       obs (streamACallback go (addr_of xi) (addr_of xq) (addr_of params) numSamples reset
              (addr_of cbContext) w)
     \<and> obs (cgoStreamBCallback go xi xq params numSamples reset cbContext w) =
       obs (streamBCallback go (addr_of xi) (addr_of xq) (addr_of params) numSamples reset
              (addr_of cbContext) w)
     \<and> obs (cgoEventCallback go eventId tuner eparams cbContext w) =
       obs (eventCallback go eventId tuner (addr_of eparams) (addr_of cbContext) w)"
proof -
  have rec_A: "cgoStreamACallback recording xi xq params numSamples reset cbContext u =
      u\<lparr>received := received u @ [StreamA (addr_of xi) (addr_of xq) (addr_of params)
        numSamples reset (addr_of cbContext)]\<rparr>" for u
    by (simp add: cgoStreamACallback_def recording_def)
  have rec_B: "cgoStreamBCallback recording xi xq params numSamples reset cbContext u =
      u\<lparr>received := received u @ [StreamB (addr_of xi) (addr_of xq) (addr_of params)
        numSamples reset (addr_of cbContext)]\<rparr>" for u
    by (simp add: cgoStreamBCallback_def recording_def)
  have rec_E: "cgoEventCallback recording eventId tuner eparams cbContext u =
      u\<lparr>received := received u @ [Event eventId tuner (addr_of eparams)
        (addr_of cbContext)]\<rparr>" for u
    by (simp add: cgoEventCallback_def recording_def)
  show ?thesis
    by (simp add: rec_A rec_B rec_E)
       (simp add: cgoStreamACallback_def cgoStreamBCallback_def cgoEventCallback_def)
qed

text \<open>
  C8. The forwarders keep no state of their own. Each forwarder, as a change of the host's
  state, is its receiver applied to \<open>host_view\<close> of the delivery, a function of the native
  arguments alone; so from any two host states, and after any two histories of earlier
  deliveries, the same delivery forwards the same values.
\<close>

theorem forwarding_stateless:
  fixes go :: "('p::len GoUintptr, 'w) go_exports"
  shows
    "cgoStreamACallback go xi xq params numSamples reset cbContext =
       receive go (host_view (ViaStreamACbFn xi xq params numSamples reset cbContext))
     \<and> cgoStreamBCallback go xi xq params numSamples reset cbContext =
       receive go (host_view (ViaStreamBCbFn xi xq params numSamples reset cbContext))
     \<and> cgoEventCallback go eventId tuner eparams cbContext =
       receive go (host_view (ViaEventCbFn eventId tuner eparams cbContext))
     \<and> deliver go registered d w = Some (receive go (host_view d) w)
     \<and> deliver go registered d w' = Some (receive go (host_view d) w')
     \<and> deliver_all go registered (before @ [d]) w =
         Some (receive go (host_view d) (fold (receive go) (map host_view before) w))
     \<and> deliver_all recording registered (before @ [d]) v =
         Some (v\<lparr>received := received v @ map host_view before @ [host_view d]\<rparr>)
     \<and> deliver_all recording registered (before' @ [d]) v' =
         Some (v'\<lparr>received := received v' @ map host_view before' @ [host_view d]\<rparr>)"
proof -
  have fwd:
    "cgoStreamACallback go xi xq params numSamples reset cbContext =
       receive go (host_view (ViaStreamACbFn xi xq params numSamples reset cbContext))"
    "cgoStreamBCallback go xi xq params numSamples reset cbContext =
       receive go (host_view (ViaStreamBCbFn xi xq params numSamples reset cbContext))"
    "cgoEventCallback go eventId tuner eparams cbContext =
       receive go (host_view (ViaEventCbFn eventId tuner eparams cbContext))"
    by (simp_all add: cgoStreamACallback_def cgoStreamBCallback_def cgoEventCallback_def)
  have hist: "deliver_all recording registered (xs @ [d]) u =
      Some (u\<lparr>received := received u @ map host_view xs @ [host_view d]\<rparr>)" for xs u
    by (simp add: deliver_all_registered fold_receive_recording receive_recording)
  have "deliver_all go registered (before @ [d]) w =
      Some (receive go (host_view d) (fold (receive go) (map host_view before) w))"
    by (simp add: deliver_all_registered)
  with fwd hist show ?thesis
    by (simp add: deliver_registered)
qed

text \<open>
  C9, as the spec states it, fails: the table is the local \<open>cbFuncs\<close> of
  \<open>wrapper_api_Init\<close>, and its life ends when the function returns. Here the simulated
  driver returns status 0 and was handed a pointer (position 0 of the stack) to the
  filled table, and after the return that pointer points to no live object.
\<close>

theorem cbFuncs_dangling_counterexample:
  "fst (wrapper_api_Init (simulated_Init 0) (Ptr (0x10 :: 64 word))
          \<lparr>automatic = [], world = []\<rparr>) = 0
   \<and> world (snd (wrapper_api_Init (simulated_Init 0) (Ptr (0x10 :: 64 word))
                 \<lparr>automatic = [], world = []\<rparr>)) =
     [(Ptr 0x10, 0, Some registered, Ptr 0x10)]
   \<and> deref 0 (snd (wrapper_api_Init (simulated_Init 0) (Ptr (0x10 :: 64 word))
                 \<lparr>automatic = [], world = []\<rparr>)) = None"
  by (simp add: wrapper_api_Init_unfold simulated_Init_def leave_def deref_def void_ptr_cast_def)

text \<open>
  C9, amended. The table is filled before the driver is called and is live, with all
  three slots set, in the state the driver is called in; \<open>wrapper_api_Init\<close> does
  nothing to the driver's result but end the life of its local, so once it has returned
  the pointer the driver was given points to no live object, whatever the driver did.
\<close>

theorem cbFuncs_lifetime:
  "wrapper_api_Init sdrplay_api_Init dev s =
     (fst (sdrplay_api_Init dev (length (automatic s)) (void_ptr_cast dev)
             (s\<lparr>automatic := automatic s @ [registered]\<rparr>)),
      leave (length (automatic s))
        (snd (sdrplay_api_Init dev (length (automatic s)) (void_ptr_cast dev)
                (s\<lparr>automatic := automatic s @ [registered]\<rparr>))))
   \<and> deref (length (automatic s)) (s\<lparr>automatic := automatic s @ [registered]\<rparr>) =
       Some registered
   \<and> deref (length (automatic s)) (snd (wrapper_api_Init sdrplay_api_Init dev s)) = None"
proof -
  obtain rc s' where call:
    "sdrplay_api_Init dev (length (automatic s)) (void_ptr_cast dev)
       (s\<lparr>automatic := automatic s @ [registered]\<rparr>) = (rc, s')"
    by (cases "sdrplay_api_Init dev (length (automatic s)) (void_ptr_cast dev)
       (s\<lparr>automatic := automatic s @ [registered]\<rparr>)")
  then have ret: "wrapper_api_Init sdrplay_api_Init dev s = (rc, leave (length (automatic s)) s')"
    by (simp add: wrapper_api_Init_unfold)
  show ?thesis
    by (simp add: ret call deref_pushed deref_leave)
qed

text \<open>
  C10. The reset flag is not reduced to 0 or 1. For every 32-bit value of the flag, each
  stream forwarder delivers that value; two different flags are delivered as two
  different values, and 2 and 0xFFFFFFFF arrive as 2 and 0xFFFFFFFF.
\<close>

theorem reset_not_normalised:
  "received (cgoStreamACallback recording xi xq params numSamples reset cbContext v) =
     received v @
       [StreamA (addr_of xi) (addr_of xq) (addr_of params) numSamples reset (addr_of cbContext)]
   \<and> received (cgoStreamBCallback recording xi xq params numSamples reset cbContext v) =
     received v @
       [StreamB (addr_of xi) (addr_of xq) (addr_of params) numSamples reset (addr_of cbContext)]
   \<and> (GoUint32_cast reset = GoUint32_cast reset') = (reset = reset')
   \<and> GoUint32_cast 2 = 2
   \<and> GoUint32_cast 0xFFFFFFFF = 0xFFFFFFFF"
  by (simp add: cgoStreamACallback_def cgoStreamBCallback_def recording_def)

text \<open>A reset flag of 0xFFFFFFFF on channel B, on a 64-bit target.\<close>

theorem reset_not_normalised_witness:
  "received (cgoStreamBCallback recording (Ptr (0x1000 :: 64 word)) (Ptr 0x2000) (Ptr 0x3000)
      256 0xFFFFFFFF (Ptr 0xABCD) \<lparr>memory = (\<lambda>a. 0), received = []\<rparr>)
   = [StreamB 0x1000 0x2000 0x3000 256 0xFFFFFFFF 0xABCD]"
  using reset_not_normalised [of "Ptr (0x1000 :: 64 word)" "Ptr 0x2000" "Ptr 0x3000"
      256 "0xFFFFFFFF" "Ptr 0xABCD" "\<lparr>memory = (\<lambda>a. 0), received = []\<rparr>"]
  by simp

end
